theory Spec2Isabelle
  imports Main
begin

section \<open>JavaScript values\<close>

text \<open>
  The configuration values that reach \<^verbatim>\<open>GraphQLFederationFactory\<close> are plain JavaScript
  values. Numbers are integers here (a federation version is 1 or 2), an object is the list
  of its own properties, each key once.
\<close>

datatype js_error = TypeError | HostError string

datatype js_value =
    JsUndefined
  | JsNull
  | JsBool bool
  | JsNum int
  | JsStr string
  | JsArr "js_value list"
  | JsObj "(string \<times> js_value) list"

fun typeof :: "js_value \<Rightarrow> string" where
  "typeof JsUndefined = ''undefined''"
| "typeof JsNull = ''object''"
| "typeof (JsBool b) = ''boolean''"
| "typeof (JsNum n) = ''number''"
| "typeof (JsStr s) = ''string''"
| "typeof (JsArr xs) = ''object''"
| "typeof (JsObj ps) = ''object''"

fun truthy :: "js_value \<Rightarrow> bool" where
  "truthy JsUndefined = False"
| "truthy JsNull = False"
| "truthy (JsBool b) = b"
| "truthy (JsNum n) = (n \<noteq> 0)"
| "truthy (JsStr s) = (s \<noteq> [])"
| "truthy (JsArr xs) = True"
| "truthy (JsObj ps) = True"

fun nullish :: "js_value \<Rightarrow> bool" where
  "nullish JsUndefined = True"
| "nullish JsNull = True"
| "nullish v = False"

text \<open>\<^verbatim>\<open>a ?? b\<close>\<close>

definition coalesce :: "js_value \<Rightarrow> js_value \<Rightarrow> js_value" where
  "coalesce a b = (if nullish a then b else a)"

text \<open>
  \<^verbatim>\<open>v.k\<close>: reading a property of \<^verbatim>\<open>undefined\<close> or \<^verbatim>\<open>null\<close> throws a TypeError; a
  missing property reads as \<^verbatim>\<open>undefined\<close>.
\<close>

fun getProp :: "js_value \<Rightarrow> string \<Rightarrow> js_error + js_value" where
  "getProp JsUndefined k = Inl TypeError"
| "getProp JsNull k = Inl TypeError"
| "getProp (JsObj ps) k = Inr (case map_of ps k of None \<Rightarrow> JsUndefined | Some v \<Rightarrow> v)"
| "getProp v k = Inr JsUndefined"

text \<open>\<^verbatim>\<open>v?.k\<close>\<close>

definition optChain :: "js_value \<Rightarrow> string \<Rightarrow> js_error + js_value" where
  "optChain v k = (if nullish v then Inr JsUndefined else getProp v k)"

section \<open>Federation version resolution\<close>

definition DEFAULT_FEDERATION_VERSION :: js_value where
  "DEFAULT_FEDERATION_VERSION = JsNum 1"

text \<open>
  \<^verbatim>\<open>getFederationVersionAndConfig\<close> returns a one- or two-element array: the version, and the
  config when there is one. A thrown error would be \<open>Inl\<close>.
\<close>

definition getFederationVersionAndConfig :: "js_value \<Rightarrow> js_error + js_value list" where
  "getFederationVersionAndConfig autoSchemaFile =
     (if \<not> truthy autoSchemaFile \<or> typeof autoSchemaFile \<noteq> ''object''
      then Inr [DEFAULT_FEDERATION_VERSION]
      else case getProp autoSchemaFile ''federation'' of
          Inl e \<Rightarrow> Inl e
        | Inr federation \<Rightarrow>
            if typeof federation \<noteq> ''object''
            then Inr [coalesce federation DEFAULT_FEDERATION_VERSION]
            else (case optChain federation ''version'' of
                Inl e \<Rightarrow> Inl e
              | Inr version \<Rightarrow> Inr [coalesce version DEFAULT_FEDERATION_VERSION, federation]))"

text \<open>
  The caller destructures the array, \<^verbatim>\<open>const [federationVersion, federationOptions] = ...\<close>:
  a missing second element reads as \<^verbatim>\<open>undefined\<close>.
\<close>

definition federationVersionOf :: "js_value list \<Rightarrow> js_value" where
  "federationVersionOf r = (case r of [] \<Rightarrow> JsUndefined | v # _ \<Rightarrow> v)"

definition federationOptionsOf :: "js_value list \<Rightarrow> js_value" where
  "federationOptionsOf r = (case r of _ # c # _ \<Rightarrow> c | _ \<Rightarrow> JsUndefined)"

section \<open>Functions and resolver maps\<close>

text \<open>
  A JavaScript function is known by its identity only. A resolver map is an object from
  type or field names to resolvers.
\<close>

type_synonym fn_ref = nat

type_synonym resolver_map = "string \<rightharpoonup> fn_ref"

section \<open>Merging with a schema and publishing it\<close>

text \<open>
  The options of the module. A schema is a value of type \<open>'s\<close>, \<open>None\<close> when the property
  is \<^verbatim>\<open>undefined\<close>; the hook \<^verbatim>\<open>options.transformSchema\<close> may throw. Every other option is carried
  along by the record's extension.
\<close>

record 's gql_module_options =
  autoSchemaFile :: js_value
  typeDefs :: js_value
  schema :: "'s option"
  transformSchemaHook :: "('s option \<Rightarrow> js_error + 's option) option"

text \<open>lodash's \<^verbatim>\<open>isEmpty\<close>\<close>

fun isEmpty :: "js_value \<Rightarrow> bool" where
  "isEmpty (JsStr s) = (s = [])"
| "isEmpty (JsArr xs) = (xs = [])"
| "isEmpty (JsObj ps) = (ps = [])"
| "isEmpty v = True"

text \<open>
  The schema \<^verbatim>\<open>mergeWithSchema\<close> composes before the hook runs. \<^verbatim>\<open>generateSchema\<close> and
  \<^verbatim>\<open>buildSchemaFromTypeDefs\<close> call the subgraph library, so they are parameters here.
\<close>

definition composedSchema ::
  "('s gql_module_options \<Rightarrow> js_error + 's option) \<Rightarrow>
   ('s gql_module_options \<Rightarrow> js_error + 's option) \<Rightarrow>
   's gql_module_options \<Rightarrow> js_error + 's option" where
  "composedSchema generateSchema buildSchemaFromTypeDefs options =
     (if truthy (autoSchemaFile options) then generateSchema options
      else if isEmpty (typeDefs options) then Inr (schema options)
      else buildSchemaFromTypeDefs options)"

text \<open>
  \<^verbatim>\<open>mergeWithSchema\<close>, with the schema host's \<^verbatim>\<open>schema\<close> property as the state: the result
  is the host after the call and what the call returns or throws.
\<close>

definition mergeWithSchema ::
  "('s gql_module_options \<Rightarrow> js_error + 's option) \<Rightarrow>
   ('s gql_module_options \<Rightarrow> js_error + 's option) \<Rightarrow>
   's option \<Rightarrow> 's gql_module_options \<Rightarrow>
   's option \<times> (js_error + 's gql_module_options)" where
  "mergeWithSchema generateSchema buildSchemaFromTypeDefs gqlSchemaHost options =
     (case composedSchema generateSchema buildSchemaFromTypeDefs options of
        Inl e \<Rightarrow> (gqlSchemaHost, Inl e)
      | Inr s \<Rightarrow>
          (case (case transformSchemaHook options of None \<Rightarrow> Inr s | Some hook \<Rightarrow> hook s) of
             Inl e \<Rightarrow> (s, Inl e)
           | Inr s' \<Rightarrow> (s, Inr (options\<lparr>schema := s', typeDefs := JsUndefined\<rparr>))))"

section \<open>Schemas, type objects and the store\<close>

text \<open>
  The override pass mutates type objects in place and stores references to objects of one
  schema in the other, so type objects live in a store, at addresses. A schema is the list
  of the addresses of its named types (its type map, in order). Field objects belong to one
  type and are kept inside it, each key once; \<^verbatim>\<open>extensions\<close> and AST nodes are objects that
  the pass replaces but never mutates, so they are values.
\<close>

type_synonym addr = nat

type_synonym js_object = "string \<rightharpoonup> js_value"

datatype type_kind =
    GraphQLScalarType
  | GraphQLObjectType
  | GraphQLInterfaceType
  | GraphQLUnionType
  | GraphQLEnumType
  | GraphQLInputObjectType

text \<open>
  A \<^verbatim>\<open>resolveType\<close> function is a function of the host application, or the closure that
  \<^verbatim>\<open>overrideFederatedResolveType\<close> creates: the closure is known by the one variable it
  captures, the auto-generated type object.
\<close>

datatype resolve_type_fn =
    HostFn fn_ref
  | FederatedResolveType addr

record gql_field =
  fieldExtensions :: js_object
  fieldAstNode :: "js_object option"
  resolve :: "fn_ref option"

record gql_type =
  kind :: type_kind
  name :: string
  typeFields :: "(string \<times> gql_field) list"
  astNode :: "js_object option"
  extensions :: js_object
  resolveType :: "resolve_type_fn option"
  parseLiteral :: "fn_ref option"
  parseValue :: "fn_ref option"

type_synonym heap = "addr \<Rightarrow> gql_type"

type_synonym gql_schema = "addr list"

text \<open>\<^verbatim>\<open>schema.getType(name)\<close>: the entry of the type map under that name.\<close>

definition getType :: "heap \<Rightarrow> gql_schema \<Rightarrow> string \<Rightarrow> addr option" where
  "getType h s n = find (\<lambda>a. name (h a) = n) s"

text \<open>
  \<^verbatim>\<open>getFields()\<close> is a method of object, interface and input object types; calling it on
  another type object is a TypeError.
\<close>

definition getFields :: "gql_type \<Rightarrow> js_error + (string \<times> gql_field) list" where
  "getFields ty =
     (if kind ty = GraphQLObjectType \<or> kind ty = GraphQLInterfaceType
         \<or> kind ty = GraphQLInputObjectType
      then Inr (typeFields ty) else Inl TypeError)"

text \<open>\<^verbatim>\<open>{...a}\<close> of an object that may be \<^verbatim>\<open>undefined\<close>\<close>

definition spread :: "js_object option \<Rightarrow> js_object" where
  "spread a = (case a of None \<Rightarrow> Map.empty | Some m \<Rightarrow> m)"

section \<open>The override pass\<close>

text \<open>
  \<^verbatim>\<open>overrideFederatedResolveType\<close>: the federated type object, at address
  \<open>typeInFederatedSchema\<close>, gets the closure over the auto-generated type object, or is
  left as it is.
\<close>

definition overrideFederatedResolveType :: "heap \<Rightarrow> addr \<Rightarrow> gql_schema \<Rightarrow> heap \<times> addr" where
  "overrideFederatedResolveType h typeInFederatedSchema autoGeneratedSchema =
     (case getType h autoGeneratedSchema (name (h typeInFederatedSchema)) of
        None \<Rightarrow> (h, typeInFederatedSchema)
      | Some autoGeneratedType \<Rightarrow>
          if \<not> (kind (h autoGeneratedType) = GraphQLUnionType
                 \<or> kind (h autoGeneratedType) = GraphQLInterfaceType)
             \<or> resolveType (h autoGeneratedType) = None
          then (h, typeInFederatedSchema)
          else (h(typeInFederatedSchema := (h typeInFederatedSchema)
                   \<lparr>resolveType := Some (FederatedResolveType autoGeneratedType)\<rparr>),
                typeInFederatedSchema))"

text \<open>The body of the two \<^verbatim>\<open>forEach\<close> callbacks, for an input field and for a field.\<close>

definition overrideInputField ::
  "(string \<times> gql_field) list \<Rightarrow> string \<times> gql_field \<Rightarrow> string \<times> gql_field" where
  "overrideInputField autoFields kv =
     (case kv of (key, val) \<Rightarrow>
        (case map_of autoFields key of
           None \<Rightarrow> (key, val)
         | Some field \<Rightarrow>
             (key, val\<lparr>fieldExtensions := fieldExtensions field,
                       fieldAstNode := fieldAstNode field\<rparr>)))"

definition overrideObjectField ::
  "(string \<times> gql_field) list \<Rightarrow> string \<times> gql_field \<Rightarrow> string \<times> gql_field" where
  "overrideObjectField autoFields kv =
     (case kv of (key, val) \<Rightarrow>
        (case map_of autoFields key of
           None \<Rightarrow> (key, val)
         | Some field \<Rightarrow>
             (key, val\<lparr>fieldExtensions := fieldExtensions field,
                       fieldAstNode := fieldAstNode field,
                       resolve := (if resolve val = None then resolve field
                                   else resolve val)\<rparr>)))"

text \<open>
  \<^verbatim>\<open>forEach(fields, ...)\<close>: every iteration calls \<^verbatim>\<open>getFields()\<close> of the auto-generated type,
  which throws when that type has no such method.
\<close>

fun forEachField ::
  "gql_type \<Rightarrow> ((string \<times> gql_field) list \<Rightarrow> string \<times> gql_field \<Rightarrow> string \<times> gql_field) \<Rightarrow>
   (string \<times> gql_field) list \<Rightarrow> js_error + (string \<times> gql_field) list" where
  "forEachField autoGeneratedType f [] = Inr []"
| "forEachField autoGeneratedType f (kv # rest) =
     (case getFields autoGeneratedType of
        Inl e \<Rightarrow> Inl e
      | Inr autoFields \<Rightarrow>
          (case forEachField autoGeneratedType f rest of
             Inl e \<Rightarrow> Inl e
           | Inr rest' \<Rightarrow> Inr (f autoFields kv # rest')))"

text \<open>
  The callback that \<^verbatim>\<open>overrideOrExtendResolvers\<close> hands to \<^verbatim>\<open>transformSchema\<close>, for the type
  object at address \<open>t\<close>: the store after the call, and the type it returns (\<open>None\<close> for
  \<^verbatim>\<open>undefined\<close>) or the error it throws.
\<close>

definition overrideType :: "heap \<Rightarrow> gql_schema \<Rightarrow> addr \<Rightarrow> heap \<times> (js_error + addr option)" where
  "overrideType h autoGeneratedSchema t =
     (let ty = h t in
      if kind ty = GraphQLUnionType \<and> name ty \<noteq> ''_Entity'' then
        (case overrideFederatedResolveType h t autoGeneratedSchema of
           (h', r) \<Rightarrow> (h', Inr (Some r)))
      else if kind ty = GraphQLInterfaceType then
        (case overrideFederatedResolveType h t autoGeneratedSchema of
           (h', r) \<Rightarrow> (h', Inr (Some r)))
      else if kind ty = GraphQLEnumType then
        (h, Inr (getType h autoGeneratedSchema (name ty)))
      else if kind ty = GraphQLInputObjectType then
        (case getType h autoGeneratedSchema (name ty) of
           None \<Rightarrow> (h, Inr (Some t))
         | Some autoGeneratedInputType \<Rightarrow>
             (case forEachField (h autoGeneratedInputType) overrideInputField (typeFields ty) of
                Inl e \<Rightarrow> (h, Inl e)
              | Inr fs \<Rightarrow>
                  (h(t := ty\<lparr>typeFields := fs,
                              extensions := extensions (h autoGeneratedInputType)\<rparr>),
                   Inr (Some t))))
      else if kind ty = GraphQLObjectType then
        (case getType h autoGeneratedSchema (name ty) of
           None \<Rightarrow> (h, Inr (Some t))
         | Some autoGeneratedObjectType \<Rightarrow>
             (case forEachField (h autoGeneratedObjectType) overrideObjectField (typeFields ty) of
                Inl e \<Rightarrow> (h, Inl e)
              | Inr fs \<Rightarrow>
                  (h(t := ty\<lparr>typeFields := fs,
                              astNode :=
                                (case astNode (h autoGeneratedObjectType) of
                                   None \<Rightarrow> astNode ty
                                 | Some autoAst \<Rightarrow> Some (spread (astNode ty) ++ autoAst)),
                              extensions :=
                                extensions ty ++ extensions (h autoGeneratedObjectType)\<rparr>),
                   Inr (Some t))))
      else if kind ty = GraphQLScalarType \<and> name ty = ''DateTime'' then
        (case getType h autoGeneratedSchema (name ty) of
           None \<Rightarrow> (h, Inr (Some t))
         | Some autoGeneratedScalar \<Rightarrow>
             (h(t := ty\<lparr>parseLiteral := parseLiteral (h autoGeneratedScalar),
                         parseValue := parseValue (h autoGeneratedScalar)\<rparr>),
              Inr (Some t)))
      else (h, Inr (Some t)))"



text \<open>
  Modelled from the spec: \<^verbatim>\<open>transformSchema\<close> of \<^verbatim>\<open>../utils/transform-schema.util\<close> is not
  among the sources. The spec has the pass walk "every named type of the federated schema",
  "each type is visited exactly once; mutation is in place on the federated schema's type
  objects, not on a copy", and "if no match exists, the federated type is returned
  unchanged": the types are visited in order, each result takes the place of the type it
  came from, a callback that returns no type keeps it, and an error ends the walk.
\<close>

fun transformSchema ::
  "heap \<Rightarrow> gql_schema \<Rightarrow> (heap \<Rightarrow> addr \<Rightarrow> heap \<times> (js_error + addr option)) \<Rightarrow>
   heap \<times> (js_error + gql_schema)" where
  "transformSchema h [] transformType = (h, Inr [])"
| "transformSchema h (t # ts) transformType =
     (case transformType h t of
        (h', Inl e) \<Rightarrow> (h', Inl e)
      | (h', Inr r) \<Rightarrow>
          (case transformSchema h' ts transformType of
             (h'', Inl e) \<Rightarrow> (h'', Inl e)
           | (h'', Inr rs) \<Rightarrow>
               (h'', Inr ((case r of None \<Rightarrow> t | Some t' \<Rightarrow> t') # rs))))"

text \<open>
  \<^verbatim>\<open>overrideOrExtendResolvers\<close>; its third parameter, \<^verbatim>\<open>printSchema\<close>, is never used.
\<close>

definition overrideOrExtendResolvers ::
  "heap \<Rightarrow> gql_schema \<Rightarrow> gql_schema \<Rightarrow> heap \<times> (js_error + gql_schema)" where
  "overrideOrExtendResolvers h executableSchema autoGeneratedSchema =
     transformSchema h executableSchema (\<lambda>h' t. overrideType h' autoGeneratedSchema t)"

section \<open>Calling a resolveType function\<close>

text \<open>
  What a \<^verbatim>\<open>resolveType\<close> returns once awaited: nothing, the name of a type, or a type
  object.
\<close>

datatype resolved = RUndefined | RNull | RString string | RType addr

record resolve_args =
  argValue :: nat
  argContext :: nat
  infoSchema :: gql_schema
  argAbstractType :: addr

text \<open>
  The part of the closure after the \<^verbatim>\<open>await\<close>: \<open>s\<close> is \<^verbatim>\<open>info.schema\<close>.
\<close>

definition federatedResult :: "heap \<Rightarrow> gql_schema \<Rightarrow> resolved \<Rightarrow> resolved" where
  "federatedResult h s resultFromAutogenSchema =
     (case resultFromAutogenSchema of
        RType a \<Rightarrow>
          (case getType h s (name (h a)) of
             None \<Rightarrow> resultFromAutogenSchema
           | Some resultFromFederatedSchema \<Rightarrow>
               if kind (h resultFromFederatedSchema) = GraphQLObjectType
               then RType resultFromFederatedSchema
               else resultFromAutogenSchema)
      | _ \<Rightarrow> resultFromAutogenSchema)"

text \<open>
  Calling a \<^verbatim>\<open>resolveType\<close> function in the store \<open>h\<close>. The functions of the host
  application are given by \<open>host\<close>: what each returns or throws (a rejected promise is a
  throw at the \<^verbatim>\<open>await\<close>). The closure reads \<^verbatim>\<open>autoGeneratedType.resolveType\<close> when it is
  called, and that may again be a closure, so the call is bounded by fuel: \<open>None\<close> means the
  fuel ran out.
\<close>

fun callResolveType ::
  "nat \<Rightarrow> (fn_ref \<Rightarrow> resolve_args \<Rightarrow> js_error + resolved) \<Rightarrow> heap \<Rightarrow> resolve_type_fn \<Rightarrow>
   resolve_args \<Rightarrow> (js_error + resolved) option" where
  "callResolveType 0 host h f args = None"
| "callResolveType (Suc n) host h (HostFn i) args = Some (host i args)"
| "callResolveType (Suc n) host h (FederatedResolveType autoGeneratedType) args =
     (case resolveType (h autoGeneratedType) of
        None \<Rightarrow> Some (Inl TypeError)
      | Some g \<Rightarrow>
          (case callResolveType n host h g args of
             None \<Rightarrow> None
           | Some (Inl e) \<Rightarrow> Some (Inl e)
           | Some (Inr resultFromAutogenSchema) \<Rightarrow>
               Some (Inr (federatedResult h (infoSchema args) resultFromAutogenSchema))))"

section \<open>Resolver map assembly\<close>

text \<open>
  Modelled from the spec: \<^verbatim>\<open>extend\<close> of \<^verbatim>\<open>../utils\<close> is not among the sources. The spec
  describes the resolver map as "assembled by shallow-merging, in order, [...] and any
  resolvers explicitly supplied by the caller -- later entries override earlier ones on key
  collision": the merge of two maps in which the later one wins, a source that was not
  supplied (\<^verbatim>\<open>undefined\<close>, here \<open>None\<close>) adding nothing.
\<close>

definition extend :: "resolver_map \<Rightarrow> resolver_map option \<Rightarrow> resolver_map" where
  "extend prev cur = (case cur of None \<Rightarrow> prev | Some m \<Rightarrow> prev ++ m)"

text \<open>\<^verbatim>\<open>resolvers.reduce((prev, curr) => extend(prev, curr), {})\<close>\<close>

definition extendResolvers :: "resolver_map option list \<Rightarrow> resolver_map" where
  "extendResolvers resolvers = foldl extend Map.empty resolvers"

text \<open>\<^verbatim>\<open>options.resolvers\<close> is an array of maps or a single value.\<close>

datatype option_resolvers =
    ResolverArray "resolver_map option list"
  | ResolverValue "resolver_map option"

text \<open>
  \<^verbatim>\<open>getResolvers\<close>; the two explorer services are injected, so what their \<^verbatim>\<open>explore()\<close>
  returns is a parameter: one map of resolvers, and a list of scalar maps.
\<close>

definition getResolvers ::
  "resolver_map \<Rightarrow> resolver_map list \<Rightarrow> option_resolvers \<Rightarrow> resolver_map" where
  "getResolvers exploredResolvers exploredScalars optionResolvers =
     (let optionResolvers' =
            (case optionResolvers of ResolverArray xs \<Rightarrow> xs | ResolverValue x \<Rightarrow> [x])
      in extendResolvers
           ([Some exploredResolvers] @ map Some exploredScalars @ optionResolvers'))"

section \<open>Example data\<close>

text \<open>Options with a hook that replaces every schema by schema 2, and builders that fail.\<close>

definition exampleHook :: "nat option \<Rightarrow> js_error + nat option" where
  "exampleHook s = Inr (Some 2)"

definition exampleBuilder :: "nat gql_module_options \<Rightarrow> js_error + nat option" where
  "exampleBuilder options = Inl (HostError ''not called'')"

definition exampleOptions :: "nat gql_module_options" where
  "exampleOptions =
     \<lparr>autoSchemaFile = JsUndefined, typeDefs = JsUndefined, schema = Some 1,
      transformSchemaHook = Some exampleHook\<rparr>"

text \<open>
  A store with a federated schema at the even addresses and an auto-generated schema at the
  odd ones: the union \<^verbatim>\<open>Pet\<close> (0, 1), the object type \<^verbatim>\<open>Cat\<close> (2, 3), the enum \<^verbatim>\<open>Status\<close>
  (4, 5), and a scalar \<^verbatim>\<open>JSON\<close> (6) and an enum \<^verbatim>\<open>Color\<close> (8) that only the federated
  schema has; 9 is the built-in scalar \<^verbatim>\<open>String\<close>. The host function 7,
  the auto-generated \<^verbatim>\<open>resolveType\<close> of \<^verbatim>\<open>Pet\<close>, answers with the auto-generated \<^verbatim>\<open>Cat\<close>.
\<close>

definition blankType :: gql_type where
  "blankType =
     \<lparr>kind = GraphQLScalarType, name = [], typeFields = [], astNode = None,
      extensions = Map.empty, resolveType = None, parseLiteral = None, parseValue = None\<rparr>"

definition exampleStore :: heap where
  "exampleStore =
     (\<lambda>a. blankType)
       (0 := blankType\<lparr>kind := GraphQLUnionType, name := ''Pet''\<rparr>,
        1 := blankType\<lparr>kind := GraphQLUnionType, name := ''Pet'',
                        resolveType := Some (HostFn 7)\<rparr>,
        2 := blankType\<lparr>kind := GraphQLObjectType, name := ''Cat'',
               typeFields :=
                 [(''name'', \<lparr>fieldExtensions = Map.empty, fieldAstNode = None,
                              resolve = Some 11\<rparr>),
                  (''age'', \<lparr>fieldExtensions = Map.empty, fieldAstNode = None,
                             resolve = None\<rparr>)]\<rparr>,
        3 := blankType\<lparr>kind := GraphQLObjectType, name := ''Cat'',
               typeFields :=
                 [(''name'', \<lparr>fieldExtensions = [''complexity'' \<mapsto> JsNum 1],
                              fieldAstNode = Some [''kind'' \<mapsto> JsStr ''FieldDefinition''],
                              resolve = Some 21\<rparr>),
                  (''age'', \<lparr>fieldExtensions = [''complexity'' \<mapsto> JsNum 2],
                             fieldAstNode = None, resolve = Some 22\<rparr>)],
               extensions := [''role'' \<mapsto> JsStr ''admin'']\<rparr>,
        4 := blankType\<lparr>kind := GraphQLEnumType, name := ''Status''\<rparr>,
        5 := blankType\<lparr>kind := GraphQLEnumType, name := ''Status'',
                        extensions := [''values'' \<mapsto> JsNum 2]\<rparr>,
        6 := blankType\<lparr>kind := GraphQLScalarType, name := ''JSON''\<rparr>,
        8 := blankType\<lparr>kind := GraphQLEnumType, name := ''Color''\<rparr>,
        9 := blankType\<lparr>kind := GraphQLScalarType, name := ''String''\<rparr>)"

definition exampleFederatedSchema :: gql_schema where
  "exampleFederatedSchema = [0, 2, 4, 6, 8]"

definition exampleAutoGeneratedSchema :: gql_schema where
  "exampleAutoGeneratedSchema = [1, 3, 5]"



definition exampleHost :: "fn_ref \<Rightarrow> resolve_args \<Rightarrow> js_error + resolved" where
  "exampleHost i args = (if i = 7 then Inr (RType 3) else Inl (HostError ''no such function''))"

definition exampleArgs :: resolve_args where
  "exampleArgs =
     \<lparr>argValue = 0, argContext = 0, infoSchema = exampleFederatedSchema, argAbstractType = 0\<rparr>"

section \<open>Properties of the federation version resolution\<close>

text \<open>
  C6: an \<^verbatim>\<open>autoSchemaFile\<close> that is falsy or not an object resolves to the default version 1
  in a one-element array, so with no config, and nothing is thrown (the result is \<open>Inr\<close>).
  For an object: a missing \<^verbatim>\<open>federation\<close> gives the default alone; a \<^verbatim>\<open>federation\<close> whose
  \<^verbatim>\<open>typeof\<close> is not \<^verbatim>\<open>'object'\<close> gives that value alone, or the default when it is
  \<^verbatim>\<open>undefined\<close>; a \<^verbatim>\<open>null\<close> federation (whose \<^verbatim>\<open>typeof\<close> is \<^verbatim>\<open>'object'\<close>) gives the default
  with \<^verbatim>\<open>null\<close> in the config slot, so again no config object.
\<close>

theorem federation_version_fallback:
  "(\<not> truthy a \<or> typeof a \<noteq> ''object'' \<longrightarrow>
      getFederationVersionAndConfig a = Inr [DEFAULT_FEDERATION_VERSION])
   \<and> getFederationVersionAndConfig (JsArr xs) = Inr [DEFAULT_FEDERATION_VERSION]
   \<and> (map_of ps ''federation'' = None \<longrightarrow>
        getFederationVersionAndConfig (JsObj ps) = Inr [DEFAULT_FEDERATION_VERSION])
   \<and> (map_of ps ''federation'' = Some f \<and> typeof f \<noteq> ''object'' \<longrightarrow>
        getFederationVersionAndConfig (JsObj ps)
          = Inr [if f = JsUndefined then DEFAULT_FEDERATION_VERSION else f])
   \<and> (map_of ps ''federation'' = Some JsNull \<longrightarrow>
        getFederationVersionAndConfig (JsObj ps) = Inr [DEFAULT_FEDERATION_VERSION, JsNull])
   \<and> DEFAULT_FEDERATION_VERSION = JsNum 1"
proof (intro conjI impI)
  assume "\<not> truthy a \<or> typeof a \<noteq> ''object''"
  then show "getFederationVersionAndConfig a = Inr [DEFAULT_FEDERATION_VERSION]"
    by (simp add: getFederationVersionAndConfig_def)
next
  show "getFederationVersionAndConfig (JsArr xs) = Inr [DEFAULT_FEDERATION_VERSION]"
    by (simp add: getFederationVersionAndConfig_def coalesce_def)
next
  assume "map_of ps ''federation'' = None"
  then show "getFederationVersionAndConfig (JsObj ps) = Inr [DEFAULT_FEDERATION_VERSION]"
    by (simp add: getFederationVersionAndConfig_def coalesce_def)
next
  assume "map_of ps ''federation'' = Some f \<and> typeof f \<noteq> ''object''"
  then show "getFederationVersionAndConfig (JsObj ps)
      = Inr [if f = JsUndefined then DEFAULT_FEDERATION_VERSION else f]"
    by (cases f) (simp_all add: getFederationVersionAndConfig_def coalesce_def)
next
  assume "map_of ps ''federation'' = Some JsNull"
  then show "getFederationVersionAndConfig (JsObj ps) = Inr [DEFAULT_FEDERATION_VERSION, JsNull]"
    by (simp add: getFederationVersionAndConfig_def coalesce_def optChain_def)
next
  show "DEFAULT_FEDERATION_VERSION = JsNum 1"
    by (simp add: DEFAULT_FEDERATION_VERSION_def)
qed

text \<open>The fallback at a boolean, a path string, \<^verbatim>\<open>undefined\<close> and three options objects.\<close>

theorem federation_version_fallback_witness:
  "getFederationVersionAndConfig (JsBool True) = Inr [JsNum 1]
   \<and> getFederationVersionAndConfig (JsStr ''schema.gql'') = Inr [JsNum 1]
   \<and> getFederationVersionAndConfig JsUndefined = Inr [JsNum 1]
   \<and> getFederationVersionAndConfig (JsObj [(''path'', JsStr ''schema.gql'')]) = Inr [JsNum 1]
   \<and> getFederationVersionAndConfig (JsObj [(''federation'', JsStr ''two'')]) = Inr [JsStr ''two'']
   \<and> getFederationVersionAndConfig (JsObj [(''federation'', JsNull)]) = Inr [JsNum 1, JsNull]"
  using federation_version_fallback [of "JsBool True" xs "[(''path'', JsStr ''schema.gql'')]" f]
    federation_version_fallback [of "JsStr ''schema.gql''" xs "[(''federation'', JsStr ''two'')]" "JsStr ''two''"]
    federation_version_fallback [of JsUndefined xs "[(''federation'', JsNull)]" f]
  by simp

text \<open>
  C7: \<^verbatim>\<open>{federation: 2}\<close> resolves to version 2 alone, and
  \<^verbatim>\<open>{federation: {version: 2, someOption: true}}\<close> to version 2 with that federation object
  as the config.
\<close>

theorem federation_version_examples:
  "getFederationVersionAndConfig (JsObj [(''federation'', JsNum 2)]) = Inr [JsNum 2]
   \<and> getFederationVersionAndConfig
        (JsObj [(''federation'', JsObj [(''version'', JsNum 2), (''someOption'', JsBool True)])])
      = Inr [JsNum 2, JsObj [(''version'', JsNum 2), (''someOption'', JsBool True)]]"
  by (simp add: getFederationVersionAndConfig_def coalesce_def optChain_def)

text \<open>What the caller's destructuring reads from the two results.\<close>

theorem federation_version_examples_witness:
  "(case getFederationVersionAndConfig (JsObj [(''federation'', JsNum 2)]) of
      Inl e \<Rightarrow> False
    | Inr r \<Rightarrow> federationVersionOf r = JsNum 2 \<and> federationOptionsOf r = JsUndefined)
   \<and> (case getFederationVersionAndConfig
        (JsObj [(''federation'', JsObj [(''version'', JsNum 2), (''someOption'', JsBool True)])]) of
      Inl e \<Rightarrow> False
    | Inr r \<Rightarrow> federationVersionOf r = JsNum 2
        \<and> federationOptionsOf r = JsObj [(''version'', JsNum 2), (''someOption'', JsBool True)])"
  using federation_version_examples
  by (simp add: federationVersionOf_def federationOptionsOf_def)

section \<open>Properties of the resolver map assembly\<close>

lemma foldl_extend_absent:
  "(\<forall>y\<in>set ys. \<forall>m'. y = Some m' \<longrightarrow> m' k = None) \<Longrightarrow> foldl extend m ys k = m k"
  by (induction ys arbitrary: m) (auto simp: extend_def map_add_def split: option.splits)

lemma foldl_extend_last:
  assumes "r k = Some v" and "\<forall>y\<in>set ys. \<forall>m'. y = Some m' \<longrightarrow> m' k = None"
  shows "foldl extend m (xs @ Some r # ys) k = Some v"
proof -
  have "foldl extend m (xs @ Some r # ys) k = extend (foldl extend m xs) (Some r) k"
    using assms(2) by (simp add: foldl_extend_absent)
  also have "\<dots> = Some v"
    using assms(1) by (simp add: extend_def map_add_def)
  finally show ?thesis .
qed

text \<open>
  C5: \<^verbatim>\<open>getResolvers\<close> merges, in this order, the explored resolvers, the explored scalar
  resolvers and the caller's resolvers (a single value as a one-element list). Whenever
  that list of sources splits into earlier sources, a map \<open>m\<close> that has the key, and later
  sources none of which has the key, the final map holds the entry of \<open>m\<close>: of the sources
  that have a key, the last one wins.
\<close>

theorem getResolvers_later_source_wins:
  assumes "[Some exploredResolvers] @ map Some exploredScalars
             @ (case optionResolvers of ResolverArray xs \<Rightarrow> xs | ResolverValue x \<Rightarrow> [x])
           = earlier @ Some m # later"
    and "m k = Some v"
    and "\<forall>y\<in>set later. \<forall>m'. y = Some m' \<longrightarrow> m' k = None"
  shows "getResolvers exploredResolvers exploredScalars optionResolvers k = Some v"
proof -
  have "getResolvers exploredResolvers exploredScalars optionResolvers
          = foldl extend Map.empty (earlier @ Some m # later)"
    unfolding getResolvers_def extendResolvers_def Let_def assms(1) ..
  then show ?thesis
    using foldl_extend_last [of m k v later Map.empty earlier] assms(2,3) by simp
qed

text \<open>
  \<^verbatim>\<open>Query\<close> is in all three sources and the caller's entry is kept; without caller's
  resolvers the scalar entry for \<^verbatim>\<open>Date\<close> overrides the explored one.
\<close>

theorem getResolvers_later_source_wins_witness:
  "getResolvers [''Query'' \<mapsto> 1, ''Cat'' \<mapsto> 10] [[''Date'' \<mapsto> 2, ''Query'' \<mapsto> 5]]
     (ResolverValue (Some [''Query'' \<mapsto> 3])) ''Query'' = Some 3
   \<and> getResolvers [''Query'' \<mapsto> 1, ''Date'' \<mapsto> 10] [[''Date'' \<mapsto> 2]]
     (ResolverValue None) ''Date'' = Some 2"
proof
  show "getResolvers [''Query'' \<mapsto> 1, ''Cat'' \<mapsto> 10] [[''Date'' \<mapsto> 2, ''Query'' \<mapsto> 5]]
     (ResolverValue (Some [''Query'' \<mapsto> 3])) ''Query'' = Some 3"
    by (rule getResolvers_later_source_wins
          [where earlier = "[Some [''Query'' \<mapsto> 1, ''Cat'' \<mapsto> 10],
                             Some [''Date'' \<mapsto> 2, ''Query'' \<mapsto> 5]]"
             and m = "[''Query'' \<mapsto> 3]" and later = "[]"]) simp_all
  show "getResolvers [''Query'' \<mapsto> 1, ''Date'' \<mapsto> 10] [[''Date'' \<mapsto> 2]]
     (ResolverValue None) ''Date'' = Some 2"
    by (rule getResolvers_later_source_wins
          [where earlier = "[Some [''Query'' \<mapsto> 1, ''Date'' \<mapsto> 10]]"
             and m = "[''Date'' \<mapsto> 2]" and later = "[None]"]) simp_all
qed

section \<open>Properties of mergeWithSchema\<close>

text \<open>
  C8, as amended: when the schema is composed and the hook (if there is one) returns,
  \<^verbatim>\<open>mergeWithSchema\<close> returns the options with \<^verbatim>\<open>typeDefs\<close> set to \<^verbatim>\<open>undefined\<close> and \<^verbatim>\<open>schema\<close>
  set to the composed schema after the hook; the schema host holds the composed schema as
  it was before the hook ran, which is the returned schema when there is no hook.
\<close>

theorem mergeWithSchema_host_holds_composed_schema:
  assumes "composedSchema generateSchema buildSchemaFromTypeDefs options = Inr s"
    and "(case transformSchemaHook options of None \<Rightarrow> Inr s | Some hook \<Rightarrow> hook s) = Inr s'"
  shows "mergeWithSchema generateSchema buildSchemaFromTypeDefs gqlSchemaHost options
           = (s, Inr (options\<lparr>schema := s', typeDefs := JsUndefined\<rparr>))
         \<and> (transformSchemaHook options = None \<longrightarrow> s' = s)"
  using assms by (auto simp: mergeWithSchema_def)

text \<open>With the example hook the options come back with schema 2, the host holds schema 1.\<close>

theorem mergeWithSchema_host_holds_composed_schema_witness:
  "mergeWithSchema exampleBuilder exampleBuilder None exampleOptions
     = (Some 1, Inr (exampleOptions\<lparr>schema := Some 2, typeDefs := JsUndefined\<rparr>))"
  using mergeWithSchema_host_holds_composed_schema
    [of exampleBuilder exampleBuilder exampleOptions "Some 1" "Some 2" None]
  by (simp add: composedSchema_def exampleOptions_def exampleHook_def)

text \<open>
  C8 as stated fails: the host is assigned before the hook runs. For the example options
  the host holds schema 1 while the returned options hold schema 2, the hook's result.
\<close>

theorem mergeWithSchema_host_not_transformed:
  "fst (mergeWithSchema exampleBuilder exampleBuilder None exampleOptions) = Some 1
   \<and> snd (mergeWithSchema exampleBuilder exampleBuilder None exampleOptions)
       = Inr (exampleOptions\<lparr>schema := Some 2, typeDefs := JsUndefined\<rparr>)
   \<and> schema (exampleOptions\<lparr>schema := Some 2, typeDefs := JsUndefined\<rparr>)
       \<noteq> fst (mergeWithSchema exampleBuilder exampleBuilder None exampleOptions)"
  by (simp add: mergeWithSchema_def composedSchema_def exampleOptions_def exampleHook_def)

section \<open>Properties of the override of one type\<close>

lemmas example_defs = exampleStore_def exampleFederatedSchema_def
  exampleAutoGeneratedSchema_def blankType_def getType_def

lemma forEachField_Inr:
  "getFields m = Inr autoFields \<Longrightarrow> forEachField m f fs = Inr (map (f autoFields) fs)"
  by (induction fs) simp_all

lemma map_of_overrideObjectField:
  "map_of (map (overrideObjectField af) fs) key
     = map_option (\<lambda>v. snd (overrideObjectField af (key, v))) (map_of fs key)"
  by (induction fs) (auto simp: overrideObjectField_def split: option.splits)

text \<open>
  C10: \<^verbatim>\<open>overrideFederatedResolveType\<close> leaves the store and the type as they are when the
  auto-generated schema has no type of that name, when that type is neither a union nor an
  interface type, and when it has no \<^verbatim>\<open>resolveType\<close>; when all three conditions hold it
  sets \<^verbatim>\<open>resolveType\<close> of the federated type to the closure over the auto-generated type and
  changes nothing else. So whenever the store changes, the three conditions hold.
\<close>

theorem overrideFederatedResolveType_installs_only_when:
  "(getType h autoGeneratedSchema (name (h t)) = None \<longrightarrow>
      overrideFederatedResolveType h t autoGeneratedSchema = (h, t))
   \<and> (getType h autoGeneratedSchema (name (h t)) = Some m
        \<and> kind (h m) \<noteq> GraphQLUnionType \<and> kind (h m) \<noteq> GraphQLInterfaceType \<longrightarrow>
      overrideFederatedResolveType h t autoGeneratedSchema = (h, t))
   \<and> (getType h autoGeneratedSchema (name (h t)) = Some m \<and> resolveType (h m) = None \<longrightarrow>
      overrideFederatedResolveType h t autoGeneratedSchema = (h, t))
   \<and> (getType h autoGeneratedSchema (name (h t)) = Some m
        \<and> (kind (h m) = GraphQLUnionType \<or> kind (h m) = GraphQLInterfaceType)
        \<and> resolveType (h m) = Some g \<longrightarrow>
      overrideFederatedResolveType h t autoGeneratedSchema
        = (h(t := (h t)\<lparr>resolveType := Some (FederatedResolveType m)\<rparr>), t))
   \<and> (fst (overrideFederatedResolveType h t autoGeneratedSchema) \<noteq> h \<longrightarrow>
      (\<exists>m' g'. getType h autoGeneratedSchema (name (h t)) = Some m'
         \<and> (kind (h m') = GraphQLUnionType \<or> kind (h m') = GraphQLInterfaceType)
         \<and> resolveType (h m') = Some g'))"
  by (auto simp: overrideFederatedResolveType_def split: option.splits)

text \<open>
  In the example store the union \<^verbatim>\<open>Pet\<close> gets the closure; the scalar \<^verbatim>\<open>JSON\<close> (no match)
  and the object type \<^verbatim>\<open>Cat\<close> (its match is an object type) are left alone.
\<close>

theorem overrideFederatedResolveType_installs_only_when_witness:
  "overrideFederatedResolveType exampleStore 0 exampleAutoGeneratedSchema
     = (exampleStore(0 := (exampleStore 0)\<lparr>resolveType := Some (FederatedResolveType 1)\<rparr>), 0)
   \<and> overrideFederatedResolveType exampleStore 6 exampleAutoGeneratedSchema = (exampleStore, 6)
   \<and> overrideFederatedResolveType exampleStore 2 exampleAutoGeneratedSchema = (exampleStore, 2)"
  using overrideFederatedResolveType_installs_only_when
      [of exampleStore exampleAutoGeneratedSchema 0 1 "HostFn 7"]
    overrideFederatedResolveType_installs_only_when
      [of exampleStore exampleAutoGeneratedSchema 6 1 "HostFn 7"]
    overrideFederatedResolveType_installs_only_when
      [of exampleStore exampleAutoGeneratedSchema 2 3 "HostFn 7"]
  by (simp add: example_defs)

text \<open>
  C1: for a federated union type other than \<^verbatim>\<open>_Entity\<close>, or a federated interface type,
  whose auto-generated namesake \<open>m\<close> is a union or interface type with a \<^verbatim>\<open>resolveType\<close>, the
  callback installs the closure over \<open>m\<close>. Called in any later store \<open>h'\<close> in which the
  \<^verbatim>\<open>resolveType\<close> of \<open>m\<close> is the host function \<open>i\<close>, the closure returns (with any fuel
  from 2 on) what follows from the answer of \<open>i\<close> to the same arguments: it passes on what
  \<open>i\<close> throws; returns an empty result or a string as it is; for a type object, returns
  the object type of that name in \<^verbatim>\<open>info.schema\<close> when there is one, and the auto-generated
  result itself otherwise.
\<close>

theorem federated_resolveType_behaviour:
  assumes fed: "kind (h t) = GraphQLUnionType \<and> name (h t) \<noteq> ''_Entity''
                \<or> kind (h t) = GraphQLInterfaceType"
    and auto: "getType h autoGeneratedSchema (name (h t)) = Some m"
      "kind (h m) = GraphQLUnionType \<or> kind (h m) = GraphQLInterfaceType"
      "resolveType (h m) = Some g"
    and later: "resolveType (h' m) = Some (HostFn i)"
  shows "overrideType h autoGeneratedSchema t
           = (h(t := (h t)\<lparr>resolveType := Some (FederatedResolveType m)\<rparr>), Inr (Some t))
     \<and> callResolveType (Suc (Suc n)) host h' (FederatedResolveType m) args =
         Some (case host i args of
                 Inl e \<Rightarrow> Inl e
               | Inr RUndefined \<Rightarrow> Inr RUndefined
               | Inr RNull \<Rightarrow> Inr RNull
               | Inr (RString s) \<Rightarrow> Inr (RString s)
               | Inr (RType a) \<Rightarrow>
                   (case getType h' (infoSchema args) (name (h' a)) of
                      None \<Rightarrow> Inr (RType a)
                    | Some b \<Rightarrow>
                        if kind (h' b) = GraphQLObjectType then Inr (RType b)
                        else Inr (RType a)))"
proof
  show "overrideType h autoGeneratedSchema t
           = (h(t := (h t)\<lparr>resolveType := Some (FederatedResolveType m)\<rparr>), Inr (Some t))"
    using fed auto by (auto simp: overrideType_def overrideFederatedResolveType_def Let_def)
  show "callResolveType (Suc (Suc n)) host h' (FederatedResolveType m) args =
         Some (case host i args of
                 Inl e \<Rightarrow> Inl e
               | Inr RUndefined \<Rightarrow> Inr RUndefined
               | Inr RNull \<Rightarrow> Inr RNull
               | Inr (RString s) \<Rightarrow> Inr (RString s)
               | Inr (RType a) \<Rightarrow>
                   (case getType h' (infoSchema args) (name (h' a)) of
                      None \<Rightarrow> Inr (RType a)
                    | Some b \<Rightarrow>
                        if kind (h' b) = GraphQLObjectType then Inr (RType b)
                        else Inr (RType a)))"
    using later
    by (simp add: federatedResult_def split: sum.splits resolved.splits option.splits)
qed

text \<open>
  In the example the auto-generated \<^verbatim>\<open>resolveType\<close>, host function 7, answers with the
  auto-generated \<^verbatim>\<open>Cat\<close> (3), and the closure with the federated \<^verbatim>\<open>Cat\<close> (2).
\<close>

theorem federated_resolveType_behaviour_witness:
  "overrideType exampleStore exampleAutoGeneratedSchema 0
     = (exampleStore(0 := (exampleStore 0)\<lparr>resolveType := Some (FederatedResolveType 1)\<rparr>),
        Inr (Some 0))
   \<and> exampleHost 7 exampleArgs = Inr (RType 3)
   \<and> callResolveType 2 exampleHost
         (exampleStore(0 := (exampleStore 0)\<lparr>resolveType := Some (FederatedResolveType 1)\<rparr>))
         (FederatedResolveType 1) exampleArgs
       = Some (Inr (RType 2))"
  using federated_resolveType_behaviour
      [of exampleStore 0 exampleAutoGeneratedSchema 1 "HostFn 7"
          "exampleStore(0 := (exampleStore 0)\<lparr>resolveType := Some (FederatedResolveType 1)\<rparr>)"
          7 0 exampleHost exampleArgs]
  by (simp add: example_defs exampleHost_def exampleArgs_def numeral_2_eq_2)

text \<open>
  C2: for a federated object type whose auto-generated namesake is an object type, and a
  field that both have, the callback succeeds and leaves the field with the extensions and
  the AST node of the auto-generated field, and with its own \<^verbatim>\<open>resolve\<close> when it had one,
  the auto-generated field's \<^verbatim>\<open>resolve\<close> otherwise.
\<close>

theorem object_field_resolver_kept:
  assumes "kind (h t) = GraphQLObjectType"
    and "getType h autoGeneratedSchema (name (h t)) = Some m"
    and "kind (h m) = GraphQLObjectType"
    and "map_of (typeFields (h t)) key = Some val"
    and "map_of (typeFields (h m)) key = Some field"
  shows "\<exists>h' val'. overrideType h autoGeneratedSchema t = (h', Inr (Some t))
          \<and> map_of (typeFields (h' t)) key = Some val'
          \<and> resolve val' = (case resolve val of None \<Rightarrow> resolve field | Some f \<Rightarrow> Some f)
          \<and> fieldExtensions val' = fieldExtensions field
          \<and> fieldAstNode val' = fieldAstNode field"
proof -
  have gf: "getFields (h m) = Inr (typeFields (h m))"
    using assms(3) by (simp add: getFields_def)
  have "overrideType h autoGeneratedSchema t
          = (h(t := (h t)\<lparr>typeFields := map (overrideObjectField (typeFields (h m))) (typeFields (h t)),
                astNode := (case astNode (h m) of None \<Rightarrow> astNode (h t)
                            | Some autoAst \<Rightarrow> Some (spread (astNode (h t)) ++ autoAst)),
                extensions := extensions (h t) ++ extensions (h m)\<rparr>), Inr (Some t))"
    using assms(1,2) by (simp add: overrideType_def Let_def forEachField_Inr [OF gf])
  moreover have "map_of (map (overrideObjectField (typeFields (h m))) (typeFields (h t))) key
      = Some (snd (overrideObjectField (typeFields (h m)) (key, val)))"
    using assms(4) by (simp add: map_of_overrideObjectField)
  ultimately show ?thesis
    using assms(5) by (auto simp: overrideObjectField_def split: option.splits)
qed

text \<open>
  In the example \<^verbatim>\<open>Cat.name\<close> keeps its resolver 11, \<^verbatim>\<open>Cat.age\<close> had none and gets 22, and
  \<^verbatim>\<open>Cat.name\<close> gets the auto-generated extensions.
\<close>

theorem object_field_resolver_kept_witness:
  "map_option resolve
       (map_of (typeFields (fst (overrideType exampleStore exampleAutoGeneratedSchema 2) 2)) ''name'')
     = Some (Some 11)
   \<and> map_option resolve
       (map_of (typeFields (fst (overrideType exampleStore exampleAutoGeneratedSchema 2) 2)) ''age'')
     = Some (Some 22)
   \<and> map_option fieldExtensions
       (map_of (typeFields (fst (overrideType exampleStore exampleAutoGeneratedSchema 2) 2)) ''name'')
     = Some [''complexity'' \<mapsto> JsNum 1]"
  using object_field_resolver_kept
      [of exampleStore 2 exampleAutoGeneratedSchema 3 "''name''"
          "\<lparr>fieldExtensions = Map.empty, fieldAstNode = None, resolve = Some 11\<rparr>"
          "\<lparr>fieldExtensions = [''complexity'' \<mapsto> JsNum 1],
            fieldAstNode = Some [''kind'' \<mapsto> JsStr ''FieldDefinition''],
            resolve = Some 21\<rparr>"]
    object_field_resolver_kept
      [of exampleStore 2 exampleAutoGeneratedSchema 3 "''age''"
          "\<lparr>fieldExtensions = Map.empty, fieldAstNode = None, resolve = None\<rparr>"
          "\<lparr>fieldExtensions = [''complexity'' \<mapsto> JsNum 2],
            fieldAstNode = None, resolve = Some 22\<rparr>"]
  by (auto simp: example_defs)

section \<open>Properties of the override pass\<close>

subsection \<open>What the pass writes\<close>

lemma getType_Some:
  "getType h s n = Some m \<Longrightarrow> m \<in> set s \<and> name (h m) = n"
  by (auto simp: getType_def find_Some_iff)

lemma getType_cong:
  "(\<forall>a\<in>set s. name (h' a) = name (h a)) \<Longrightarrow> getType h' s n = getType h s n"
  unfolding getType_def by (induction s) auto

lemma overrideType_frame:
  "a \<noteq> t \<Longrightarrow> fst (overrideType h auto t) a = h a"
  by (auto simp: overrideType_def overrideFederatedResolveType_def Let_def
      split: option.splits sum.splits)

lemma overrideType_name:
  "name (fst (overrideType h auto t) a) = name (h a)"
  by (auto simp: overrideType_def overrideFederatedResolveType_def Let_def
      split: option.splits sum.splits)


lemma fst_transformSchema_Cons:
  "fst (transformSchema h (t # ts) f)
     = (case snd (f h t) of Inl e \<Rightarrow> fst (f h t)
        | Inr r \<Rightarrow> fst (transformSchema (fst (f h t)) ts f))"
  by (auto split: prod.splits sum.splits)

lemma transformSchema_invariant:
  assumes "\<And>h t. t \<in> set ts \<Longrightarrow> P h \<Longrightarrow> P (fst (f h t))" and "P h"
  shows "P (fst (transformSchema h ts f))"
  using assms
proof (induction ts arbitrary: h)
  case Nil
  then show ?case by simp
next
  case (Cons t ts)
  have step: "P (fst (f h t))" using Cons.prems by simp
  show ?case
  proof (cases "snd (f h t)")
    case (Inl e)
    then show ?thesis using step by (simp add: fst_transformSchema_Cons del: transformSchema.simps)
  next
    case (Inr r)
    have "P (fst (transformSchema (fst (f h t)) ts f))"
      using Cons.prems(1) step by (intro Cons.IH) simp_all
    then show ?thesis using Inr by (simp add: fst_transformSchema_Cons del: transformSchema.simps)
  qed
qed

lemma pass_frame:
  assumes "a \<notin> set fed"
  shows "fst (overrideOrExtendResolvers h fed auto) a = h a"
  unfolding overrideOrExtendResolvers_def
proof (rule transformSchema_invariant [where P = "\<lambda>h'. h' a = h a"])
  fix h' t
  assume "t \<in> set fed" and same: "h' a = h a"
  with assms have "a \<noteq> t" by auto
  then show "fst (overrideType h' auto t) a = h a"
    using same by (simp add: overrideType_frame)
qed simp



lemma overrideType_no_match:
  "getType h auto (name (h t)) = None \<Longrightarrow>
   overrideType h auto t = (h, Inr (if kind (h t) = GraphQLEnumType then None else Some t))"
  by (auto simp: overrideType_def overrideFederatedResolveType_def Let_def)



lemma pass_no_match_unchanged:
  assumes "getType h auto (name (h t)) = None"
  shows "fst (overrideOrExtendResolvers h fed auto) t = h t"
  unfolding overrideOrExtendResolvers_def
proof (rule transformSchema_invariant
    [where P = "\<lambda>h'. h' t = h t \<and> (\<forall>a. name (h' a) = name (h a))", THEN conjunct1])
  fix h' x
  assume inv: "h' t = h t \<and> (\<forall>a. name (h' a) = name (h a))"
  have "getType h' auto (name (h' t)) = None"
    using assms inv getType_cong [of auto h' h] by simp
  then have "x = t \<Longrightarrow> fst (overrideType h' auto x) t = h' t"
    by (simp add: overrideType_no_match)
  moreover have "x \<noteq> t \<Longrightarrow> fst (overrideType h' auto x) t = h' t"
    by (simp add: overrideType_frame)
  ultimately show "fst (overrideType h' auto x) t = h t
      \<and> (\<forall>a. name (fst (overrideType h' auto x) a) = name (h a))"
    using inv by (auto simp: overrideType_name)
qed simp

lemma transformSchema_Cons_Inr:
  assumes "transformSchema h (t # ts) f = (h1, Inr ts1)"
  obtains r rs where "snd (f h t) = Inr r"
    and "transformSchema (fst (f h t)) ts f = (h1, Inr rs)"
    and "ts1 = (case r of None \<Rightarrow> t | Some t' \<Rightarrow> t') # rs"
  using assms by (auto split: prod.splits sum.splits)

lemma pass_keeps_unmatched:
  assumes "transformSchema h ts (\<lambda>h' t. overrideType h' auto t) = (h1, Inr ts1)"
    and "\<forall>a. name (h a) = name (h0 a)"
    and "getType h0 auto (name (h0 t)) = None"
  shows "length ts1 = length ts \<and> (\<forall>i<length ts. ts ! i = t \<longrightarrow> ts1 ! i = t)"
  using assms
proof (induction ts arbitrary: h ts1)
  case Nil
  then show ?case by simp
next
  case (Cons x ts)
  from Cons.prems(1) obtain r rs where
    r: "snd (overrideType h auto x) = Inr r"
    and rest: "transformSchema (fst (overrideType h auto x)) ts (\<lambda>h' t. overrideType h' auto t)
                 = (h1, Inr rs)"
    and ts1: "ts1 = (case r of None \<Rightarrow> x | Some t' \<Rightarrow> t') # rs"
    by (rule transformSchema_Cons_Inr)
  have names: "\<forall>a. name (fst (overrideType h auto x) a) = name (h0 a)"
    using Cons.prems(2) by (simp add: overrideType_name)
  have IH: "length rs = length ts \<and> (\<forall>i<length ts. ts ! i = t \<longrightarrow> rs ! i = t)"
    using Cons.IH [OF rest names Cons.prems(3)] .
  have "getType h auto (name (h t)) = None"
    using Cons.prems(2,3) getType_cong [of auto h h0] by simp
  then have head: "x = t \<Longrightarrow> (case r of None \<Rightarrow> x | Some t' \<Rightarrow> t') = t"
    using r by (auto simp: overrideType_no_match split: if_splits)
  show ?case
    using IH head ts1 by (auto simp: nth_Cons split: nat.splits)
qed

lemma pass_result_subset:
  assumes "transformSchema h ts (\<lambda>h' t. overrideType h' auto t) = (h1, Inr ts1)"
  shows "set ts1 \<subseteq> set ts \<union> set auto"
  using assms
proof (induction ts arbitrary: h ts1)
  case Nil
  then show ?case by simp
next
  case (Cons x ts)
  from Cons.prems(1) obtain r rs where
    r: "snd (overrideType h auto x) = Inr r"
    and rest: "transformSchema (fst (overrideType h auto x)) ts (\<lambda>h' t. overrideType h' auto t)
                 = (h1, Inr rs)"
    and ts1: "ts1 = (case r of None \<Rightarrow> x | Some t' \<Rightarrow> t') # rs"
    by (rule transformSchema_Cons_Inr)
  have "r = None \<or> r = Some x \<or> (\<exists>e. r = Some e \<and> e \<in> set auto)"
    using r getType_Some [of h auto "name (h x)"]
    by (auto simp: overrideType_def overrideFederatedResolveType_def Let_def
        split: option.splits sum.splits if_splits)
  then show ?case
    using Cons.IH [OF rest] ts1 by auto
qed

text \<open>
  C3: a federated type of any kind whose name the auto-generated schema does not have. The
  callback leaves the store as it is and throws nothing; it returns the type itself, except
  for an enum type, where it returns the result of the failed lookup, \<^verbatim>\<open>undefined\<close>, and the
  walk then keeps the type. The whole pass leaves the type object as it was, and in the
  schema it returns the type stands where it stood.
\<close>

theorem unmatched_type_kept:
  assumes "getType h autoGeneratedSchema (name (h t)) = None"
  shows "overrideType h autoGeneratedSchema t
           = (h, Inr (if kind (h t) = GraphQLEnumType then None else Some t))
     \<and> fst (overrideOrExtendResolvers h executableSchema autoGeneratedSchema) t = h t
     \<and> (\<forall>schema'. snd (overrideOrExtendResolvers h executableSchema autoGeneratedSchema)
                      = Inr schema' \<longrightarrow>
          length schema' = length executableSchema
          \<and> (\<forall>i<length executableSchema. executableSchema ! i = t \<longrightarrow> schema' ! i = t))"
proof -
  have one: "overrideType h autoGeneratedSchema t
           = (h, Inr (if kind (h t) = GraphQLEnumType then None else Some t))"
    using assms by (rule overrideType_no_match)
  have store: "fst (overrideOrExtendResolvers h executableSchema autoGeneratedSchema) t = h t"
    using assms by (rule pass_no_match_unchanged)
  have result: "length schema' = length executableSchema
          \<and> (\<forall>i<length executableSchema. executableSchema ! i = t \<longrightarrow> schema' ! i = t)"
    if "snd (overrideOrExtendResolvers h executableSchema autoGeneratedSchema) = Inr schema'"
    for schema'
  proof -
    have "transformSchema h executableSchema (\<lambda>h' t. overrideType h' autoGeneratedSchema t)
        = (fst (overrideOrExtendResolvers h executableSchema autoGeneratedSchema), Inr schema')"
      using that by (simp add: overrideOrExtendResolvers_def prod_eq_iff)
    from pass_keeps_unmatched [OF this _ assms] show ?thesis by simp
  qed
  show ?thesis
    using one store result by blast
qed

text \<open>
  In the example the enum \<^verbatim>\<open>Color\<close> (8) and the scalar \<^verbatim>\<open>JSON\<close> (6) have no namesake and
  are kept.
\<close>

theorem unmatched_type_kept_witness:
  "overrideType exampleStore exampleAutoGeneratedSchema 8 = (exampleStore, Inr None)
   \<and> overrideType exampleStore exampleAutoGeneratedSchema 6 = (exampleStore, Inr (Some 6))
   \<and> fst (overrideOrExtendResolvers exampleStore exampleFederatedSchema
             exampleAutoGeneratedSchema) 8 = exampleStore 8
   \<and> fst (overrideOrExtendResolvers exampleStore exampleFederatedSchema
             exampleAutoGeneratedSchema) 6 = exampleStore 6"
  using unmatched_type_kept [of exampleStore exampleAutoGeneratedSchema 8 exampleFederatedSchema]
    unmatched_type_kept [of exampleStore exampleAutoGeneratedSchema 6 exampleFederatedSchema]
  by (simp add: exampleStore_def exampleAutoGeneratedSchema_def blankType_def getType_def)

text \<open>
  C9: the callback writes to no type object but the one it is called for; the pass writes
  to no type object outside the federated schema. So when the two schemas share no type
  object before the pass, every type object of the auto-generated schema (with its fields,
  extensions, AST node and \<^verbatim>\<open>resolveType\<close>) is afterwards what it was. The schema the pass
  returns is made of type objects of the two schemas, so auto-generated objects may be
  shared into it.
\<close>

theorem auto_generated_schema_untouched:
  "(a \<noteq> t \<longrightarrow> fst (overrideType h autoGeneratedSchema t) a = h a)
   \<and> (a \<notin> set executableSchema \<longrightarrow>
        fst (overrideOrExtendResolvers h executableSchema autoGeneratedSchema) a = h a)
   \<and> (set executableSchema \<inter> set autoGeneratedSchema = {} \<longrightarrow>
        (\<forall>m\<in>set autoGeneratedSchema.
           fst (overrideOrExtendResolvers h executableSchema autoGeneratedSchema) m = h m))
   \<and> (\<forall>schema'. snd (overrideOrExtendResolvers h executableSchema autoGeneratedSchema)
                    = Inr schema' \<longrightarrow>
        set schema' \<subseteq> set executableSchema \<union> set autoGeneratedSchema)"
proof (intro conjI allI impI ballI)
  show "a \<noteq> t \<Longrightarrow> fst (overrideType h autoGeneratedSchema t) a = h a"
    by (rule overrideType_frame)
  show "a \<notin> set executableSchema \<Longrightarrow>
      fst (overrideOrExtendResolvers h executableSchema autoGeneratedSchema) a = h a"
    by (rule pass_frame)
next
  fix m
  assume "set executableSchema \<inter> set autoGeneratedSchema = {}" and "m \<in> set autoGeneratedSchema"
  then have "m \<notin> set executableSchema" by auto
  then show "fst (overrideOrExtendResolvers h executableSchema autoGeneratedSchema) m = h m"
    by (rule pass_frame)
next
  fix schema'
  assume "snd (overrideOrExtendResolvers h executableSchema autoGeneratedSchema) = Inr schema'"
  then have "transformSchema h executableSchema (\<lambda>h' t. overrideType h' autoGeneratedSchema t)
      = (fst (overrideOrExtendResolvers h executableSchema autoGeneratedSchema), Inr schema')"
    by (simp add: overrideOrExtendResolvers_def prod_eq_iff)
  then show "set schema' \<subseteq> set executableSchema \<union> set autoGeneratedSchema"
    by (rule pass_result_subset)
qed

text \<open>The three auto-generated type objects of the example are unchanged by the pass.\<close>

theorem auto_generated_schema_untouched_witness:
  "fst (overrideOrExtendResolvers exampleStore exampleFederatedSchema
          exampleAutoGeneratedSchema) 1 = exampleStore 1
   \<and> fst (overrideOrExtendResolvers exampleStore exampleFederatedSchema
          exampleAutoGeneratedSchema) 3 = exampleStore 3
   \<and> fst (overrideOrExtendResolvers exampleStore exampleFederatedSchema
          exampleAutoGeneratedSchema) 5 = exampleStore 5"
  using auto_generated_schema_untouched
      [of 1 0 exampleStore exampleAutoGeneratedSchema exampleFederatedSchema]
  by (simp add: exampleFederatedSchema_def exampleAutoGeneratedSchema_def)

subsection \<open>A second pass\<close>




























end
